theory Spec2Isabelle
  imports Complex_Main
begin

section \<open>The optical train of rayopt/system.py\<close>

text \<open>
  \<^verbatim>\<open>class System(list)\<close> is a Python list of element objects with three attributes
  (\<^verbatim>\<open>description\<close>, \<^verbatim>\<open>scale\<close>, \<^verbatim>\<open>wavelengths\<close>). The elements are objects that the
  methods mutate in place, so the model keeps a store: the list holds addresses and a
  heap maps every address to the attribute values of the object living there. Python
  floats are idealised as real numbers.
\<close>

subsection \<open>Data model\<close>

datatype py_error = AssertionError | IndexError | ValueError | AttributeError
  | ZeroDivisionError

text \<open>The classes \<^verbatim>\<open>isinstance\<close> distinguishes; \<open>Surface\<close> is any other element class.\<close>

datatype element_class = Object | Aperture | Image' | Surface

record material_obj =
  solid :: bool
  nd :: real
  vd :: real

text \<open>
  The attributes of an element that system.py reads or writes. \<open>material\<close> is \<open>None\<close>
  when the object has no such attribute (\<^verbatim>\<open>hasattr\<close> is false), \<open>Some None\<close> when the
  attribute holds Python's \<^verbatim>\<open>None\<close>, and \<open>Some (Some m)\<close> when it holds a material.
  \<open>curvature\<close> is \<open>None\<close> when the attribute is missing (\<^verbatim>\<open>getattr(el, "curvature", 0)\<close>).
  Whatever else an element class stores lives in the record's extension.
\<close>

record element =
  cls :: element_class
  finite_attr :: bool
  distance :: real
  material :: "material_obj option option"
  curvature :: "real option"
  radius :: real

type_synonym addr = nat

type_synonym 'e heap = "addr \<Rightarrow> 'e"

record system =
  elems :: "addr list"
  description :: string
  scale :: real
  wavelengths :: "real list"

subsection \<open>Python list operations\<close>

text \<open>\<^verbatim>\<open>xs[i]\<close>: a negative index counts from the end, out of range raises.\<close>

definition py_index :: "'a list \<Rightarrow> int \<Rightarrow> py_error + 'a" where
  "py_index xs i =
     (let j = (if i < 0 then i + int (length xs) else i)
      in if j < 0 \<or> int (length xs) \<le> j then Inl IndexError else Inr (xs ! nat j))"

text \<open>\<^verbatim>\<open>xs[start:stop]\<close> with both bounds given: bounds are clamped, never an error.\<close>

definition py_slice :: "'a list \<Rightarrow> int \<Rightarrow> int \<Rightarrow> 'a list" where
  "py_slice xs start stop =
     (let n = int (length xs);
          lo = (if start < 0 then max 0 (start + n) else min start n);
          hi = (if stop < 0 then max 0 (stop + n) else min stop n)
      in take (nat (hi - lo)) (drop (nat lo) xs))"

text \<open>\<^verbatim>\<open>xs.index(a)\<close>: the first position holding \<open>a\<close>, \<^verbatim>\<open>ValueError\<close> when there is none.\<close>

fun py_list_index :: "'b list \<Rightarrow> 'b \<Rightarrow> py_error + nat" where
  "py_list_index [] a = Inl ValueError"
| "py_list_index (x # xs) a =
     (if x = a then Inr 0
      else (case py_list_index xs a of Inl e \<Rightarrow> Inl e | Inr i \<Rightarrow> Inr (Suc i)))"

subsection \<open>Role accessors\<close>

definition isinstance :: "'a element_scheme heap \<Rightarrow> addr \<Rightarrow> element_class \<Rightarrow> bool" where
  "isinstance h a c = (cls (h a) = c)"

text \<open>The \<^verbatim>\<open>object\<close> property: getter and setter (lines 37 to 48).\<close>

definition object_get :: "'a element_scheme heap \<Rightarrow> system \<Rightarrow> py_error + addr" where
  "object_get h s =
     (case py_index (elems s) 0 of
        Inl e \<Rightarrow> Inl e
      | Inr a \<Rightarrow> if isinstance h a Object then Inr a else Inl AssertionError)"

definition object_set :: "'a element_scheme heap \<Rightarrow> system \<Rightarrow> addr \<Rightarrow> py_error + system" where
  "object_set h s v =
     (if \<not> isinstance h v Object then Inl AssertionError
      else (case py_index (elems s) 0 of
              Inl e \<Rightarrow> Inl e
            | Inr a \<Rightarrow>
                if isinstance h a Object then Inr (s\<lparr>elems := (elems s)[0 := v]\<rparr>)
                else Inr (s\<lparr>elems := v # elems s\<rparr>)))"

text \<open>The \<^verbatim>\<open>aperture\<close> property: the loop returns at the first match, and falls off
  its end (returning \<^verbatim>\<open>None\<close>) when there is none.\<close>

fun aperture_scan :: "'a element_scheme heap \<Rightarrow> addr list \<Rightarrow> addr option" where
  "aperture_scan h [] = None"
| "aperture_scan h (el # els) =
     (if isinstance h el Aperture then Some el else aperture_scan h els)"

definition aperture :: "'a element_scheme heap \<Rightarrow> system \<Rightarrow> addr option" where
  "aperture h s = aperture_scan h (elems s)"

text \<open>\<^verbatim>\<open>self.index(self.aperture)\<close>: the list holds element objects only, so the search
  for \<^verbatim>\<open>None\<close> finds nothing and raises \<^verbatim>\<open>ValueError\<close>. Element objects compare by
  identity.\<close>

definition aperture_index :: "'a element_scheme heap \<Rightarrow> system \<Rightarrow> py_error + nat" where
  "aperture_index h s =
     (case aperture h s of
        None \<Rightarrow> Inl ValueError
      | Some a \<Rightarrow> py_list_index (elems s) a)"

text \<open>The \<^verbatim>\<open>image\<close> property: getter and setter (lines 60 to 71).\<close>

definition image_get :: "'a element_scheme heap \<Rightarrow> system \<Rightarrow> py_error + addr" where
  "image_get h s =
     (case py_index (elems s) (- 1) of
        Inl e \<Rightarrow> Inl e
      | Inr a \<Rightarrow> if isinstance h a Image' then Inr a else Inl AssertionError)"

definition image_set :: "'a element_scheme heap \<Rightarrow> system \<Rightarrow> addr \<Rightarrow> py_error + system" where
  "image_set h s v =
     (if \<not> isinstance h v Image' then Inl AssertionError
      else (case py_index (elems s) (- 1) of
              Inl e \<Rightarrow> Inl e
            | Inr a \<Rightarrow>
                if isinstance h a Image'
                then Inr (s\<lparr>elems := (elems s)[length (elems s) - 1 := v]\<rparr>)
                else Inr (s\<lparr>elems := elems s @ [v]\<rparr>)))"

subsection \<open>Construction\<close>

text \<open>A constructor call stores the new object at the first unused address.\<close>

definition alloc :: "'e \<Rightarrow> 'e heap \<times> addr \<Rightarrow> addr \<times> ('e heap \<times> addr)" where
  "alloc e H = (case H of (h, free) \<Rightarrow> (free, (h(free := e), Suc free)))"

text \<open>
  Modelled from the spec: the constructors \<^verbatim>\<open>Object(finite=False)\<close>, \<^verbatim>\<open>Aperture()\<close> and
  \<^verbatim>\<open>Image()\<close> belong to elements.py, which is not part of the sources. The new object is
  of the class that is called and \<^verbatim>\<open>finite\<close> is the keyword argument; the attribute
  defaults of each class are the parameter \<open>dflt\<close>.
\<close>

definition new_element :: "(element_class \<Rightarrow> 'a element_scheme) \<Rightarrow> element_class \<Rightarrow> 'a element_scheme" where
  "new_element dflt c = (dflt c)\<lparr>cls := c\<rparr>"

definition new_Object :: "(element_class \<Rightarrow> 'a element_scheme) \<Rightarrow> bool \<Rightarrow> 'a element_scheme" where
  "new_Object dflt fin = (new_element dflt Object)\<lparr>finite_attr := fin\<rparr>"

text \<open>
  \<^verbatim>\<open>__init__(self, elements=[], description="", scale=1e-3, wavelengths=...)\<close>. The argument
  \<open>elements\<close> is \<open>None\<close> for Python's \<^verbatim>\<open>None\<close> and \<open>Some es\<close> for a list, which
  \<^verbatim>\<open>list.__init__\<close> copies.
\<close>

definition System_init ::
  "(element_class \<Rightarrow> 'a element_scheme) \<Rightarrow> 'a element_scheme heap \<times> addr \<Rightarrow> addr list option \<Rightarrow>
     string \<Rightarrow> real \<Rightarrow> real list \<Rightarrow> ('a element_scheme heap \<times> addr) \<times> system" where
  "System_init dflt H elements descr sc wl =
     (case elements of
        None \<Rightarrow>
          (case alloc (new_Object dflt False) H of (ob, H1) \<Rightarrow>
           case alloc (new_element dflt Aperture) H1 of (ap, H2) \<Rightarrow>
           case alloc (new_element dflt Image') H2 of (im, H3) \<Rightarrow>
             (H3, \<lparr>elems = [ob, ap, im], description = descr, scale = sc, wavelengths = wl\<rparr>))
      | Some es \<Rightarrow>
          (H, \<lparr>elems = es, description = descr, scale = sc, wavelengths = wl\<rparr>))"

text \<open>
  The call \<^verbatim>\<open>System()\<close> with every argument omitted takes the defaults of the signature:
  the empty list, the empty string and \<^verbatim>\<open>1e-3\<close>. The default wavelengths come from the
  table \<^verbatim>\<open>fraunhofer\<close> of material.py, which is not part of the sources: a parameter.
\<close>

definition System_default ::
  "(element_class \<Rightarrow> 'a element_scheme) \<Rightarrow> 'a element_scheme heap \<times> addr \<Rightarrow> real list \<Rightarrow>
     ('a element_scheme heap \<times> addr) \<times> system" where
  "System_default dflt H fraunhofer_dCF = System_init dflt H (Some []) [] (1 / 1000) fraunhofer_dCF"

subsection \<open>Calling a method on every element\<close>

text \<open>\<^verbatim>\<open>for e in self: e.method()\<close>, where \<open>f\<close> gives the state of an object after the call.
  An object that stands in the list twice is called twice.\<close>

fun for_each :: "('e \<Rightarrow> 'e) \<Rightarrow> addr list \<Rightarrow> 'e heap \<Rightarrow> 'e heap" where
  "for_each f [] h = h"
| "for_each f (e # es) h = for_each f es (h(e := f (h e)))"

subsection \<open>Reverse\<close>

text \<open>
  The element method \<^verbatim>\<open>reverse()\<close> belongs to elements.py: the parameter \<open>el_reverse\<close>
  gives the state of an element after the call. The two shifting loops carry \<open>d\<close> and
  \<open>m\<close> (a material or Python's \<^verbatim>\<open>None\<close>) from one element to the next.
\<close>

fun shift_distances :: "real \<Rightarrow> addr list \<Rightarrow> 'a element_scheme heap \<Rightarrow> 'a element_scheme heap" where
  "shift_distances d [] h = h"
| "shift_distances d (e # es) h =
     shift_distances (distance (h e)) es (h(e := (h e)\<lparr>distance := d\<rparr>))"

fun shift_materials ::
  "material_obj option \<Rightarrow> addr list \<Rightarrow> 'a element_scheme heap \<Rightarrow> 'a element_scheme heap" where
  "shift_materials m [] h = h"
| "shift_materials m (e # es) h =
     (case material (h e) of
        None \<Rightarrow> shift_materials m es h
      | Some old \<Rightarrow> shift_materials old es (h(e := (h e)\<lparr>material := Some m\<rparr>)))"

definition reverse ::
  "('a element_scheme \<Rightarrow> 'a element_scheme) \<Rightarrow> 'a element_scheme heap \<times> system \<Rightarrow>
     'a element_scheme heap \<times> system" where
  "reverse el_reverse H =
     (case H of (h, s) \<Rightarrow>
        let es = rev (elems s);
            h1 = for_each el_reverse es h;
            h2 = shift_distances 0 es h1;
            h3 = shift_materials None (rev es) h2
        in (h3, s\<lparr>elems := es\<rparr>))"

subsection \<open>Rescale\<close>


subsection \<open>Resize convex\<close>

text \<open>\<^verbatim>\<open>el.material.solid\<close> on an element that has the attribute \<^verbatim>\<open>material\<close>: Python's
  \<^verbatim>\<open>None\<close> has no attribute \<^verbatim>\<open>solid\<close>.\<close>

definition material_solid :: "'a element_scheme \<Rightarrow> py_error + bool" where
  "material_solid e =
     (case material e of
        Some (Some m) \<Rightarrow> Inr (solid m)
      | _ \<Rightarrow> Inl AttributeError)"

text \<open>\<^verbatim>\<open>c0 > 0\<close>; \<open>c0\<close> is \<^verbatim>\<open>None\<close> only while \<open>pending\<close> is, where the test is not reached.\<close>

definition positive :: "real option \<Rightarrow> bool" where
  "positive c0 = (case c0 of None \<Rightarrow> False | Some v \<Rightarrow> 0 < v)"

text \<open>
  One pass of the loop body of \<^verbatim>\<open>resize_convex\<close> for the element \<open>el\<close>, from the loop
  variables \<open>pending\<close>, \<open>c0\<close> and the heap. The result is the heap with the new loop
  variables, or with the error raised: an exception leaves the radii written so far in
  place. The two tests of \<^verbatim>\<open>el.material.solid\<close> (lines 137 and 139) read the same
  attribute, so they are one case distinction here.
\<close>

definition resize_step ::
  "addr \<Rightarrow> addr option \<Rightarrow> real option \<Rightarrow> 'a element_scheme heap \<Rightarrow>
     'a element_scheme heap \<times> (py_error + addr option \<times> real option)" where
  "resize_step el pending c0 h =
     (if material (h el) = None then (h, Inr (pending, c0))
      else
        let c = (case curvature (h el) of None \<Rightarrow> 0 | Some c \<Rightarrow> c);
            h1 = (case pending of
                    None \<Rightarrow> h
                  | Some p \<Rightarrow>
                      if c < 0
                      then h(el := (h el)\<lparr>radius := max (radius (h el)) (radius (h p))\<rparr>)
                      else h);
            h2 = (case pending of
                    None \<Rightarrow> h1
                  | Some p \<Rightarrow>
                      if positive c0
                      then h1(p := (h1 p)\<lparr>radius := max (radius (h1 p)) (radius (h1 el))\<rparr>)
                      else h1)
        in (case material_solid (h2 el) of
              Inl err \<Rightarrow> (h2, Inl err)
            | Inr sol \<Rightarrow> (h2, Inr (if sol then (Some el, Some c) else (None, c0)))))"

fun resize_loop ::
  "addr option \<Rightarrow> real option \<Rightarrow> addr list \<Rightarrow> 'a element_scheme heap \<Rightarrow>
     'a element_scheme heap \<times> py_error option" where
  "resize_loop pending c0 [] h = (h, None)"
| "resize_loop pending c0 (el # els) h =
     (case resize_step el pending c0 h of
        (h', Inl err) \<Rightarrow> (h', Some err)
      | (h', Inr (pending', c0')) \<Rightarrow> resize_loop pending' c0' els h')"

definition resize_convex ::
  "'a element_scheme heap \<Rightarrow> system \<Rightarrow> 'a element_scheme heap \<times> py_error option" where
  "resize_convex h s = resize_loop None None (py_slice (elems s) 1 (- 1)) h"

definition fix_sizes ::
  "'a element_scheme heap \<Rightarrow> system \<Rightarrow> 'a element_scheme heap \<times> py_error option" where
  "fix_sizes h s = resize_convex h s"

subsection \<open>Surface outlines\<close>

text \<open>
  A row of the array that \<^verbatim>\<open>transform_from\<close> returns is a point; \<^verbatim>\<open>xyz[:, axis]\<close> selects
  one coordinate of every row and raises when there is no such column.
\<close>

type_synonym vec3 = "real \<times> real \<times> real"

definition column :: "int \<Rightarrow> vec3 \<Rightarrow> real" where
  "column axis p =
     (case p of (a, b, c) \<Rightarrow>
        if axis = 0 \<or> axis = - 3 then a else if axis = 1 \<or> axis = - 2 then b else c)"

text \<open>What the generator yields: \<open>Open x z\<close> at \<^verbatim>\<open>yield x, z\<close>, and \<open>Closed xs zs\<close> with the
  two rows of the array at \<^verbatim>\<open>yield np.c_[...]\<close>.\<close>

datatype outline = Open "real list" "real list" | Closed "real list" "real list"

text \<open>
  The element methods \<^verbatim>\<open>surface_cut\<close> and \<^verbatim>\<open>transform_from\<close> belong to elements.py: the
  parameters \<open>el_surface_cut\<close> and \<open>el_transform_from\<close>. \<open>x\<close> and \<open>z\<close> are views of \<open>xyz\<close>,
  so \<^verbatim>\<open>z += z0\<close> shifts the third column of \<open>xyz\<close> itself. The result lists what was
  yielded, and the error if the generator raised.
\<close>

fun surfaces_cut_loop ::
  "('a element_scheme \<Rightarrow> int \<Rightarrow> nat \<Rightarrow> vec3 list) \<Rightarrow> ('a element_scheme \<Rightarrow> vec3 list \<Rightarrow> vec3 list) \<Rightarrow>
     int \<Rightarrow> nat \<Rightarrow> real \<Rightarrow> (real list \<times> real list) option \<Rightarrow> 'a element_scheme list \<Rightarrow>
     outline list \<times> py_error option" where
  "surfaces_cut_loop el_surface_cut el_transform_from axis points z0 pending [] = ([], None)"
| "surfaces_cut_loop el_surface_cut el_transform_from axis points z0 pending (e # es) =
     (let z0' = z0 + distance e;
          xyz = el_transform_from e (el_surface_cut e axis points)
      in if axis < - 3 \<or> 3 \<le> axis then ([], Some IndexError)
         else
           let xyz' = map (\<lambda>(a, b, c). (a, b, c + z0')) xyz;
               x = map (column axis) xyz';
               z = map (column 2) xyz'
           in (case material e of
                 Some (Some m) \<Rightarrow>
                   (case (case pending of
                            Some (px, pz) \<Rightarrow>
                              if x = [] \<or> px = [] then Inl IndexError
                              else
                                let cl = (if hd x < hd px then (hd x, hd pz) else (hd px, hd z));
                                    cu = (if last px < last x then (last x, last pz)
                                          else (last px, last z))
                                in Inr [Closed (px @ [fst cu] @ rev x @ [fst cl] @ [hd px])
                                               (pz @ [snd cu] @ rev z @ [snd cl] @ [hd pz])]
                          | None \<Rightarrow> Inr (if \<not> solid m then [Open x z] else []))
                    of
                      Inl err \<Rightarrow> ([], Some err)
                    | Inr ys \<Rightarrow>
                        (case surfaces_cut_loop el_surface_cut el_transform_from axis points z0'
                                (if solid m then Some (x, z) else None) es
                         of (rest, err) \<Rightarrow> (ys @ rest, err)))
               | _ \<Rightarrow>
                   (case surfaces_cut_loop el_surface_cut el_transform_from axis points z0'
                           pending es
                    of (rest, err) \<Rightarrow> (Open x z # rest, err))))"

definition surfaces_cut ::
  "('a element_scheme \<Rightarrow> int \<Rightarrow> nat \<Rightarrow> vec3 list) \<Rightarrow> ('a element_scheme \<Rightarrow> vec3 list \<Rightarrow> vec3 list) \<Rightarrow>
     'a element_scheme heap \<Rightarrow> system \<Rightarrow> int \<Rightarrow> nat \<Rightarrow> outline list \<times> py_error option" where
  "surfaces_cut el_surface_cut el_transform_from h s axis points =
     surfaces_cut_loop el_surface_cut el_transform_from axis points 0 None (map h (elems s))"

subsection \<open>Paraxial matrix chain\<close>

text \<open>A 2 by 2 array, row by row; \<open>eye2\<close> is \<^verbatim>\<open>np.eye(2)\<close> and \<open>dot\<close> is \<^verbatim>\<open>np.dot\<close>.\<close>

datatype mat2 = Mat2 real real real real

definition eye2 :: mat2 where
  "eye2 = Mat2 1 0 0 1"

fun dot :: "mat2 \<Rightarrow> mat2 \<Rightarrow> mat2" where
  "dot (Mat2 a b c d) (Mat2 e f g k) =
     Mat2 (a * e + b * g) (a * f + b * k) (c * e + d * g) (c * f + d * k)"

text \<open>\<^verbatim>\<open>stop or len(self)\<close>: \<^verbatim>\<open>None\<close> and \<^verbatim>\<open>0\<close> are both falsy.\<close>

definition stop_or_len :: "int option \<Rightarrow> 'b list \<Rightarrow> int" where
  "stop_or_len stop xs =
     (case stop of
        None \<Rightarrow> int (length xs)
      | Some k \<Rightarrow> if k = 0 then int (length xs) else k)"

text \<open>
  The element methods \<^verbatim>\<open>refractive_index(l)\<close> and \<^verbatim>\<open>paraxial_matrix(n, l)\<close> belong to
  elements.py, which is not part of the sources; they are parameters of the model, read
  as functions of the element's state. The loop of \<^verbatim>\<open>paraxial_matrices\<close> threads the
  running index \<open>n\<close> through the elements and yields one pair per element.
\<close>

fun paraxial_loop ::
  "('e \<Rightarrow> real \<Rightarrow> real \<Rightarrow> real \<times> mat2) \<Rightarrow> real \<Rightarrow> real \<Rightarrow> 'e list \<Rightarrow> (real \<times> mat2) list" where
  "paraxial_loop el_paraxial_matrix l n [] = []"
| "paraxial_loop el_paraxial_matrix l n (e # es) =
     (case el_paraxial_matrix e n l of
        (n', m) \<Rightarrow> (n', m) # paraxial_loop el_paraxial_matrix l n' es)"

definition paraxial_matrices ::
  "('e \<Rightarrow> real \<Rightarrow> real) \<Rightarrow> ('e \<Rightarrow> real \<Rightarrow> real \<Rightarrow> real \<times> mat2) \<Rightarrow> 'e heap \<Rightarrow> system \<Rightarrow>
     real \<Rightarrow> int \<Rightarrow> int option \<Rightarrow> py_error + (real \<times> mat2) list" where
  "paraxial_matrices refractive_index el_paraxial_matrix h s l start stop =
     (case py_index (elems s) (start - 1) of
        Inl e \<Rightarrow> Inl e
      | Inr a \<Rightarrow>
          Inr (paraxial_loop el_paraxial_matrix l (refractive_index (h a) l)
                 (map h (py_slice (elems s) start (stop_or_len stop (elems s))))))"

definition paraxial_matrix ::
  "('e \<Rightarrow> real \<Rightarrow> real) \<Rightarrow> ('e \<Rightarrow> real \<Rightarrow> real \<Rightarrow> real \<times> mat2) \<Rightarrow> 'e heap \<Rightarrow> system \<Rightarrow>
     real \<Rightarrow> int \<Rightarrow> int option \<Rightarrow> py_error + mat2" where
  "paraxial_matrix refractive_index el_paraxial_matrix h s l start stop =
     (case paraxial_matrices refractive_index el_paraxial_matrix h s l start stop of
        Inl e \<Rightarrow> Inl e
      | Inr ms \<Rightarrow> Inr (fold (\<lambda>(n, mi) m. dot mi m) ms eye2))"

subsection \<open>The two shifts of \<^verbatim>\<open>reverse\<close> on lists of attribute values\<close>

text \<open>
  What the loops of \<^verbatim>\<open>reverse\<close> do to the attribute values alone, read in the order in
  which the loop visits the elements: \<open>shifted_distances\<close> moves every distance one
  place on and starts with \<open>d\<close>; \<open>shifted_materials\<close> does the same along the elements
  that have the attribute, and \<open>carried_material\<close> is the value the loop holds at its
  end. They describe the heap after the loops when no object stands in the list twice.
\<close>

fun shifted_distances :: "real \<Rightarrow> real list \<Rightarrow> real list" where
  "shifted_distances d [] = []"
| "shifted_distances d (x # xs) = d # shifted_distances x xs"

fun shifted_materials ::
  "material_obj option \<Rightarrow> material_obj option option list \<Rightarrow> material_obj option option list" where
  "shifted_materials m [] = []"
| "shifted_materials m (None # xs) = None # shifted_materials m xs"
| "shifted_materials m (Some old # xs) = Some m # shifted_materials old xs"

fun carried_material ::
  "material_obj option \<Rightarrow> material_obj option option list \<Rightarrow> material_obj option" where
  "carried_material m [] = m"
| "carried_material m (None # xs) = carried_material m xs"
| "carried_material m (Some old # xs) = carried_material old xs"

subsection \<open>Example trains\<close>

text \<open>Concrete objects and trains on which the theorems below are evaluated.\<close>

definition blank :: element where
  "blank = \<lparr>cls = Surface, finite_attr = True, distance = 0, material = None,
     curvature = None, radius = 1\<rparr>"

definition marker_heap :: "element heap" where
  "marker_heap = (\<lambda>_. blank)(0 := blank\<lparr>cls := Object\<rparr>, 1 := blank\<lparr>cls := Aperture\<rparr>,
     2 := blank\<lparr>cls := Image'\<rparr>, 3 := blank\<lparr>cls := Aperture\<rparr>, 4 := blank\<lparr>cls := Object\<rparr>, 5 := blank\<lparr>cls := Image'\<rparr>)"

definition train :: "addr list \<Rightarrow> system" where
  "train as = \<lparr>elems = as, description = [], scale = 1 / 1000, wavelengths = []\<rparr>"

text \<open>
  An example element class for the paraxial chain: the index behind an element is that
  of its material (1 without one), and the matrix moves a ray (height, index times
  angle) across the gap in front of the surface and refracts it there.
\<close>

definition ex_refractive_index :: "element \<Rightarrow> real \<Rightarrow> real" where
  "ex_refractive_index e l = (case material e of Some (Some m) \<Rightarrow> nd m | _ \<Rightarrow> 1)"

definition ex_paraxial_matrix :: "element \<Rightarrow> real \<Rightarrow> real \<Rightarrow> real \<times> mat2" where
  "ex_paraxial_matrix e n0 l =
     (let n = ex_refractive_index e l;
          c = (case curvature e of None \<Rightarrow> 0 | Some c \<Rightarrow> c);
          p = (n0 - n) * c
      in (n, Mat2 1 (distance e / n0) p (1 + p * distance e / n0)))"

definition glass :: material_obj where
  "glass = \<lparr>solid = True, nd = 2, vd = 60\<rparr>"

definition air :: material_obj where
  "air = \<lparr>solid = False, nd = 1, vd = 90\<rparr>"

definition lens_heap :: "element heap" where
  "lens_heap = (\<lambda>_. blank)
     (0 := blank\<lparr>cls := Object\<rparr>,
      1 := blank\<lparr>distance := 1, material := Some (Some glass), curvature := Some 1\<rparr>,
      2 := blank\<lparr>distance := 1, material := Some (Some air), curvature := Some 0\<rparr>,
      3 := blank\<lparr>cls := Image', distance := 1\<rparr>)"

text \<open>An example outline: the two rim points of a flat element, in the element's own
  frame, which the train shares.\<close>

definition ex_surface_cut :: "element \<Rightarrow> int \<Rightarrow> nat \<Rightarrow> vec3 list" where
  "ex_surface_cut e axis points = [(0, - radius e, 0), (0, radius e, 0)]"

definition ex_transform_from :: "element \<Rightarrow> vec3 list \<Rightarrow> vec3 list" where
  "ex_transform_from e pts = pts"


text \<open>Three cemented surfaces between an object and an image: two solid glasses, both
  entered through surfaces of positive curvature, and a flat last surface into air.\<close>

definition cemented_heap :: "element heap" where
  "cemented_heap = (\<lambda>_. blank)
     (0 := blank\<lparr>cls := Object\<rparr>,
      1 := blank\<lparr>material := Some (Some glass), curvature := Some 1, radius := 1\<rparr>,
      2 := blank\<lparr>distance := 1, material := Some (Some glass), curvature := Some 1,
                 radius := 2\<rparr>,
      3 := blank\<lparr>distance := 1, material := Some (Some air), curvature := Some 0,
                 radius := 3\<rparr>,
      4 := blank\<lparr>cls := Image', distance := 1\<rparr>)"

text \<open>An example \<^verbatim>\<open>reverse\<close> of an element: the curvature changes its sign.\<close>

definition ex_reverse :: "element \<Rightarrow> element" where
  "ex_reverse e = e\<lparr>curvature := map_option uminus (curvature e)\<rparr>"

text \<open>The thick lens with the image-side material left unset, as \<^verbatim>\<open>reverse\<close> leaves it.\<close>

definition open_lens_heap :: "element heap" where
  "open_lens_heap = lens_heap(2 := (lens_heap 2)\<lparr>material := Some None\<rparr>)"

section \<open>Properties\<close>

subsection \<open>Role accessors\<close>

lemma py_index_0: "xs \<noteq> [] \<Longrightarrow> py_index xs 0 = Inr (hd xs)"
  by (cases xs) (simp_all add: py_index_def)

lemma py_index_last: "xs \<noteq> [] \<Longrightarrow> py_index xs (- 1) = Inr (last xs)"
  by (simp add: py_index_def Let_def last_conv_nth nat_diff_distrib' ) 

lemma upd_last: "xs \<noteq> [] \<Longrightarrow> xs[length xs - 1 := w] = butlast xs @ [w]"
  by (induction xs rule: rev_induct) (auto simp: list_update_append)

text \<open>
  Claim C7. On a non-empty train, setting \<^verbatim>\<open>object\<close> to an Object replaces element 0 when
  that element is an Object (the length stays N) and inserts the new Object at index 0
  otherwise (the length becomes N + 1); setting \<^verbatim>\<open>image\<close> to an Image replaces the last
  element when it is an Image and appends otherwise.
\<close>

theorem setters_replace_or_insert:
  assumes "elems s \<noteq> []" and "isinstance h v Object" and "isinstance h w Image'"
  shows "(isinstance h (hd (elems s)) Object \<longrightarrow>
            (\<exists>s'. object_set h s v = Inr s' \<and> elems s' = v # tl (elems s)
                  \<and> length (elems s') = length (elems s)))
       \<and> (\<not> isinstance h (hd (elems s)) Object \<longrightarrow>
            (\<exists>s'. object_set h s v = Inr s' \<and> elems s' = v # elems s
                  \<and> length (elems s') = length (elems s) + 1))
       \<and> (isinstance h (last (elems s)) Image' \<longrightarrow>
            (\<exists>s'. image_set h s w = Inr s' \<and> elems s' = butlast (elems s) @ [w]
                  \<and> length (elems s') = length (elems s)))
       \<and> (\<not> isinstance h (last (elems s)) Image' \<longrightarrow>
            (\<exists>s'. image_set h s w = Inr s' \<and> elems s' = elems s @ [w]
                  \<and> length (elems s') = length (elems s) + 1))"
proof -
  obtain a as where s: "elems s = a # as" using assms(1) by (cases "elems s") auto
  have upd0: "(elems s)[0 := v] = v # tl (elems s)" by (simp add: s)
  have updl: "(elems s)[length (elems s) - 1 := w] = butlast (elems s) @ [w]"
    using assms(1) by (rule upd_last)
  have len: "length (butlast (elems s) @ [w]) = length (elems s)" using assms(1) by simp
  show ?thesis
    using assms py_index_0[OF assms(1)] py_index_last[OF assms(1)] upd0 updl 
    by (auto simp add: object_set_def image_set_def s)
qed


lemma aperture_scan_None: "aperture_scan h as = None \<longleftrightarrow> (\<forall>a \<in> set as. \<not> isinstance h a Aperture)"
  by (induction as) auto

lemma aperture_scan_Some: "aperture_scan h as = Some a \<longleftrightarrow>
   (\<exists>i < length as. as ! i = a \<and> isinstance h a Aperture \<and> (\<forall>j < i. \<not> isinstance h (as ! j) Aperture))"
proof (induction as)
  case Nil show ?case by simp
next
  case (Cons x xs)
  show ?case
  proof (cases "isinstance h x Aperture")
    case True
    have "(\<exists>i < length (x # xs). (x # xs) ! i = a \<and> isinstance h a Aperture \<and> (\<forall>j < i. \<not> isinstance h ((x # xs) ! j) Aperture)) \<longleftrightarrow> x = a"
    proof
      assume "\<exists>i < length (x # xs). (x # xs) ! i = a \<and> isinstance h a Aperture \<and> (\<forall>j < i. \<not> isinstance h ((x # xs) ! j) Aperture)"
      then obtain i where i: "(x # xs) ! i = a" "\<forall>j < i. \<not> isinstance h ((x # xs) ! j) Aperture" by blast
      have "i = 0" proof (rule ccontr) assume "i \<noteq> 0" then have "0 < i" by simp
        with i(2) have "\<not> isinstance h ((x # xs) ! 0) Aperture" by blast with True show False by simp qed
      with i(1) show "x = a" by simp
    next
      assume "x = a" with True show "\<exists>i < length (x # xs). (x # xs) ! i = a \<and> isinstance h a Aperture \<and> (\<forall>j < i. \<not> isinstance h ((x # xs) ! j) Aperture)"
        by (intro exI[of _ 0]) simp
    qed
    with True show ?thesis by simp
  next
    case False
    have "(\<exists>i < length (x # xs). (x # xs) ! i = a \<and> isinstance h a Aperture \<and> (\<forall>j < i. \<not> isinstance h ((x # xs) ! j) Aperture))
       \<longleftrightarrow> (\<exists>i < length xs. xs ! i = a \<and> isinstance h a Aperture \<and> (\<forall>j < i. \<not> isinstance h (xs ! j) Aperture))" (is "?L \<longleftrightarrow> ?R")
    proof
      assume ?L
      then obtain i where i: "i < length (x # xs)" "(x # xs) ! i = a" "isinstance h a Aperture" "\<forall>j < i. \<not> isinstance h ((x # xs) ! j) Aperture" by blast
      with False obtain k where k: "i = Suc k" by (cases i) auto
      have "\<forall>j < k. \<not> isinstance h (xs ! j) Aperture"
      proof (intro allI impI) fix j assume "j < k" then have "Suc j < i" using k by simp
        with i(4) have "\<not> isinstance h ((x # xs) ! Suc j) Aperture" by blast then show "\<not> isinstance h (xs ! j) Aperture" by simp qed
      with i k show ?R by (intro exI[of _ k]) simp
    next
      assume ?R
      then obtain i where i: "i < length xs" "xs ! i = a" "isinstance h a Aperture" "\<forall>j < i. \<not> isinstance h (xs ! j) Aperture" by blast
      have "\<forall>j < Suc i. \<not> isinstance h ((x # xs) ! j) Aperture"
      proof (intro allI impI) fix j assume "j < Suc i" then show "\<not> isinstance h ((x # xs) ! j) Aperture"
          using False i(4) by (cases j) auto qed
      with i show ?L by (intro exI[of _ "Suc i"]) simp
    qed
    with False Cons.IH show ?thesis by simp
  qed
qed


lemma py_list_index_Inr: "py_list_index xs a = Inr i \<longleftrightarrow>
    i < length xs \<and> xs ! i = a \<and> (\<forall>j < i. xs ! j \<noteq> a)"
proof (induction xs arbitrary: i)
  case Nil show ?case by simp
next
  case (Cons x xs)
  show ?case
  proof (cases "x = a")
    case True
    have "(i < length (x # xs) \<and> (x # xs) ! i = a \<and> (\<forall>j < i. (x # xs) ! j \<noteq> a)) \<longleftrightarrow> i = 0"
      using True by (cases i) auto
    with True show ?thesis by auto
  next
    case False
    show ?thesis
    proof (cases i)
      case 0 with False show ?thesis by (auto split: sum.splits)
    next
      case (Suc k)
      have "(\<forall>j < Suc k. (x # xs) ! j \<noteq> a) \<longleftrightarrow> (\<forall>j < k. xs ! j \<noteq> a)"
        using False by (auto simp: less_Suc_eq_0_disj)
      with False Suc Cons.IH[of k] show ?thesis by (auto split: sum.splits)
    qed
  qed
qed

lemma py_list_index_Inl: "py_list_index xs a = Inl e \<longleftrightarrow> a \<notin> set xs \<and> e = ValueError"
  by (induction xs) (auto split: sum.splits)

text \<open>
  Claim C8. \<^verbatim>\<open>aperture\<close> is the first Aperture of the forward scan, also when there are
  several, and \<^verbatim>\<open>None\<close> exactly when the train has no Aperture; \<^verbatim>\<open>aperture_index\<close> is the
  position of that first Aperture, and raises \<^verbatim>\<open>ValueError\<close> exactly when there is none.
\<close>

theorem aperture_first_match:
  "(aperture h s = None \<longleftrightarrow> (\<forall>a \<in> set (elems s). \<not> isinstance h a Aperture))
   \<and> (\<forall>a. aperture h s = Some a \<longleftrightarrow>
          (\<exists>i < length (elems s). elems s ! i = a \<and> isinstance h a Aperture
              \<and> (\<forall>j < i. \<not> isinstance h (elems s ! j) Aperture)))
   \<and> (\<forall>i. aperture_index h s = Inr i \<longleftrightarrow>
          i < length (elems s) \<and> isinstance h (elems s ! i) Aperture
              \<and> (\<forall>j < i. \<not> isinstance h (elems s ! j) Aperture))
   \<and> (aperture_index h s = Inl ValueError \<longleftrightarrow>
          (\<forall>a \<in> set (elems s). \<not> isinstance h a Aperture))"
proof (intro conjI allI)
  show none: "aperture h s = None \<longleftrightarrow> (\<forall>a \<in> set (elems s). \<not> isinstance h a Aperture)"
    by (simp add: aperture_def aperture_scan_None)
  show some: "aperture h s = Some a \<longleftrightarrow>
          (\<exists>i < length (elems s). elems s ! i = a \<and> isinstance h a Aperture
              \<and> (\<forall>j < i. \<not> isinstance h (elems s ! j) Aperture))" for a
    by (simp add: aperture_def aperture_scan_Some)
  show "aperture_index h s = Inr i \<longleftrightarrow>
          i < length (elems s) \<and> isinstance h (elems s ! i) Aperture
              \<and> (\<forall>j < i. \<not> isinstance h (elems s ! j) Aperture)" (is "?L \<longleftrightarrow> ?R") for i
  proof
    assume ?L
    then obtain a where a: "aperture h s = Some a" and ix: "py_list_index (elems s) a = Inr i"
      by (auto simp: aperture_index_def split: option.splits)
    from a obtain k where k: "k < length (elems s)" "elems s ! k = a" "isinstance h a Aperture"
      "\<forall>j < k. \<not> isinstance h (elems s ! j) Aperture"
      using some by blast
    from ix have i: "i < length (elems s)" "elems s ! i = a" "\<forall>j < i. elems s ! j \<noteq> a"
      by (simp_all add: py_list_index_Inr)
    have "\<not> k < i" using i(3) k(2) by blast
    moreover have "\<not> i < k" using k(3,4) i(2) by auto
    ultimately have "i = k" by simp
    with k show ?R by simp
  next
    assume r: ?R
    then have a: "aperture h s = Some (elems s ! i)" using some by blast
    have "\<forall>j < i. elems s ! j \<noteq> elems s ! i" using r by metis
    then have "py_list_index (elems s) (elems s ! i) = Inr i"
      using r by (simp add: py_list_index_Inr)
    with a show ?L by (simp add: aperture_index_def)
  qed
  show "aperture_index h s = Inl ValueError \<longleftrightarrow>
          (\<forall>a \<in> set (elems s). \<not> isinstance h a Aperture)"
  proof
    assume l: "aperture_index h s = Inl ValueError"
    show "\<forall>a \<in> set (elems s). \<not> isinstance h a Aperture"
    proof (cases "aperture h s")
      case None then show ?thesis using none by simp
    next
      case (Some a)
      with l have "a \<notin> set (elems s)" by (simp add: aperture_index_def py_list_index_Inl)
      moreover from Some have "a \<in> set (elems s)" using some by auto
      ultimately show ?thesis by simp
    qed
  next
    assume "\<forall>a \<in> set (elems s). \<not> isinstance h a Aperture"
    then have "aperture h s = None" using none by simp
    then show "aperture_index h s = Inl ValueError" by (simp add: aperture_index_def)
  qed
qed

subsection \<open>Witnesses on example trains\<close>

lemmas ex_simps = marker_heap_def blank_def train_def isinstance_def py_index_def

theorem aperture_first_match_witness:
  "aperture marker_heap (train [0, 1, 2, 3]) = Some 1
   \<and> aperture_index marker_heap (train [0, 1, 2, 3]) = Inr 1
   \<and> aperture marker_heap (train [0, 2]) = None
   \<and> aperture_index marker_heap (train [0, 2]) = Inl ValueError"
  using aperture_first_match [of marker_heap "train [0, 1, 2, 3]"]
    aperture_first_match [of marker_heap "train [0, 2]"]
  by (simp add: aperture_def aperture_index_def ex_simps)

theorem setters_replace_or_insert_witness:
  "object_set marker_heap (train [0, 1, 2]) 4 = Inr (train [4, 1, 2])
   \<and> object_set marker_heap (train [1, 2]) 4 = Inr (train [4, 1, 2])
   \<and> image_set marker_heap (train [0, 1, 2]) 5 = Inr (train [0, 1, 5])
   \<and> image_set marker_heap (train [0, 1]) 5 = Inr (train [0, 1, 5])"
  using setters_replace_or_insert [of "train [0, 1, 2]" marker_heap 4 5]
    setters_replace_or_insert [of "train [1, 2]" marker_heap 4 5]
    setters_replace_or_insert [of "train [0, 1]" marker_heap 4 5]
  by (simp add: object_set_def image_set_def ex_simps)

subsection \<open>Construction\<close>

text \<open>
  Claim C4 as stated fails: the default of the parameter \<^verbatim>\<open>elements\<close> is the empty list, not
  \<^verbatim>\<open>None\<close>, so a call that omits the argument builds an empty train.
\<close>

theorem default_train_is_empty_counterexample:
  "elems (snd (System_default (\<lambda>c. blank) (marker_heap, 6) [])) = []
   \<and> map (\<lambda>a. cls (fst (fst (System_default (\<lambda>c. blank) (marker_heap, 6) [])) a))
        (elems (snd (System_default (\<lambda>c. blank) (marker_heap, 6) [])))
     \<noteq> [Object, Aperture, Image']"
  by (simp add: System_default_def System_init_def)

text \<open>
  Claim C4, as amended. With \<^verbatim>\<open>elements=None\<close> the constructor allocates three new objects,
  an Object with \<^verbatim>\<open>finite=False\<close>, an Aperture and an Image, and the train holds them in
  this order; objects that existed before are untouched. With a list the train holds
  that list, and with the argument omitted it is empty.
\<close>

theorem init_None_gives_triple:
  "(\<exists>h'. System_init dflt (h, free) None descr sc wl
            = ((h', free + 3),
               \<lparr>elems = [free, free + 1, free + 2], description = descr, scale = sc,
                 wavelengths = wl\<rparr>)
          \<and> map (\<lambda>a. cls (h' a)) [free, free + 1, free + 2] = [Object, Aperture, Image']
          \<and> finite_attr (h' free) = False
          \<and> (\<forall>a. a < free \<longrightarrow> h' a = h a))
   \<and> System_init dflt (h, free) (Some es) descr sc wl
       = ((h, free), \<lparr>elems = es, description = descr, scale = sc, wavelengths = wl\<rparr>)
   \<and> elems (snd (System_default dflt (h, free) wl)) = []"
  by (simp add: System_init_def System_default_def alloc_def new_Object_def new_element_def)

theorem init_None_gives_triple_witness:
  "elems (snd (System_init (\<lambda>c. blank) (marker_heap, 6) None [] (1 / 1000) [])) = [6, 7, 8]
   \<and> map (\<lambda>a. cls (fst (fst (System_init (\<lambda>c. blank) (marker_heap, 6) None [] (1 / 1000) [])) a))
        [6, 7, 8] = [Object, Aperture, Image']"
  using init_None_gives_triple [of "\<lambda>c. blank" marker_heap 6 "[]" "1 / 1000" "[]" "[]"]
  by (simp add: System_init_def alloc_def new_Object_def new_element_def)

subsection \<open>Paraxial matrix chain\<close>

lemma dot_assoc: "dot (dot a b) c = dot a (dot b c)"
  by (cases a; cases b; cases c) (simp add: algebra_simps)

lemma dot_eye2 [simp]: "dot m eye2 = m" "dot eye2 m = m"
  by (cases m; simp add: eye2_def)+

lemma fold_dot: "fold (\<lambda>(n, mi) m. dot mi m) ms m0 = dot (fold (\<lambda>(n, mi) m. dot mi m) ms eye2) m0"
proof (induction ms arbitrary: m0)
  case Nil show ?case by simp
next
  case (Cons x xs)
  obtain n mi where x: "x = (n, mi)" by (cases x)
  have "fold (\<lambda>(n, mi) m. dot mi m) (x # xs) m0 = fold (\<lambda>(n, mi) m. dot mi m) xs (dot mi m0)"
    by (simp add: x)
  also have "\<dots> = dot (fold (\<lambda>(n, mi) m. dot mi m) xs eye2) (dot mi m0)" by (rule Cons.IH)
  also have "\<dots> = dot (dot (fold (\<lambda>(n, mi) m. dot mi m) xs eye2) mi) m0" by (simp add: dot_assoc)
  also have "dot (fold (\<lambda>(n, mi) m. dot mi m) xs eye2) mi = fold (\<lambda>(n, mi) m. dot mi m) xs (dot mi eye2)"
    using Cons.IH[of "dot mi eye2"] by simp
  finally show ?case by (simp add: x)
qed

lemma paraxial_loop_append:
  "paraxial_loop pm l n (xs @ ys) =
     paraxial_loop pm l n xs @
     paraxial_loop pm l (if xs = [] then n else fst (last (paraxial_loop pm l n xs))) ys"
proof (induction xs arbitrary: n)
  case Nil show ?case by simp
next
  case (Cons x xs)
  obtain n' m where p: "pm x n l = (n', m)" by (cases "pm x n l")
  show ?case using Cons.IH[of n'] by (cases xs) (auto simp: p split: prod.splits)
qed

lemma length_paraxial_loop [simp]: "length (paraxial_loop pm l n xs) = length xs"
  by (induction xs arbitrary: n) (auto split: prod.splits)

lemma py_slice_nat: "py_slice xs (int i) (int j) = take (j - i) (drop i xs)"
  by (auto simp: py_slice_def Let_def min_def nat_diff_distrib' )


lemma py_index_nat: "i < length xs \<Longrightarrow> py_index xs (int i) = Inr (xs ! i)"
  by (simp add: py_index_def)

text \<open>
  Claim C1, as amended. The chain applies later elements on the left, so for a split
  index \<open>1 < k < n\<close> the matrix over \<open>[1, n)\<close> is the product of the matrix over \<open>[k, n)\<close>
  on the left and the matrix over \<open>[1, k)\<close> on the right, provided the index that the
  chain carries out of element \<open>k - 1\<close> is the one \<^verbatim>\<open>refractive_index\<close> reports for that
  element (the chain from \<open>k\<close> is seeded with the latter). Arithmetic is that of the reals.
\<close>

theorem paraxial_chain_split:
  fixes k :: nat
  assumes k: "1 < k" "k < length (elems s)"
    and ms: "paraxial_matrices ri pm h s l 1 (Some (int k)) = Inr ms"
    and idx: "fst (last ms) = ri (h (elems s ! (k - 1))) l"
  shows "\<exists>A B. paraxial_matrix ri pm h s l 1 (Some (int k)) = Inr A
           \<and> paraxial_matrix ri pm h s l (int k) (Some (int (length (elems s)))) = Inr B
           \<and> paraxial_matrix ri pm h s l 1 (Some (int (length (elems s)))) = Inr (dot B A)"
proof -
  let ?f = "\<lambda>(n, mi) m. dot mi m"
  let ?es = "elems s"
  let ?N = "length ?es"
  define n0 where "n0 = ri (h (?es ! 0)) l"
  define front where "front = map h (take (k - 1) (drop 1 ?es))"
  define rear where "rear = map h (drop k ?es)"
  have stop_k: "stop_or_len (Some (int k)) ?es = int k" using k by (simp add: stop_or_len_def)
  have stop_N: "stop_or_len (Some (int ?N)) ?es = int ?N" using k by (simp add: stop_or_len_def)
  have ne: "0 < ?N" using k by linarith
  have idx0: "py_index ?es 0 = Inr (?es ! 0)" using py_index_nat[OF ne] by simp
  have idxk: "py_index ?es (int k - 1) = Inr (?es ! (k - 1))"
    using k py_index_nat[of "k - 1" ?es] by (simp add: of_nat_diff)
  have sl_front: "py_slice ?es 1 (int k) = take (k - 1) (drop 1 ?es)"
    using py_slice_nat[of ?es 1 k] by simp
  have sl_back: "py_slice ?es (int k) (int ?N) = drop k ?es"
    using py_slice_nat[of ?es k ?N] by simp
  have sl_all: "py_slice ?es 1 (int ?N) = drop 1 ?es"
    using py_slice_nat[of ?es 1 ?N] by simp
  have split: "drop 1 ?es = take (k - 1) (drop 1 ?es) @ drop k ?es"
  proof -
    have "drop (k - 1) (drop 1 ?es) = drop k ?es" using k by simp
    then show ?thesis by (metis append_take_drop_id)
  qed
  have ms_eq: "ms = paraxial_loop pm l n0 front"
    using ms by (simp add: paraxial_matrices_def idx0 stop_k sl_front n0_def front_def)
  have front_ne: "front \<noteq> []" using k by (simp add: front_def)
  have A: "paraxial_matrix ri pm h s l 1 (Some (int k)) = Inr (fold ?f ms eye2)"
    using ms by (simp add: paraxial_matrix_def)
  have B: "paraxial_matrix ri pm h s l (int k) (Some (int ?N))
             = Inr (fold ?f (paraxial_loop pm l (fst (last ms)) rear) eye2)"
    by (simp add: paraxial_matrix_def paraxial_matrices_def idxk stop_N sl_back idx rear_def)
  have "map h (drop 1 ?es) = front @ rear"
    unfolding front_def rear_def map_append[symmetric] using split by simp
  then have "paraxial_loop pm l n0 (map h (drop 1 ?es))
               = ms @ paraxial_loop pm l (fst (last ms)) rear"
    using front_ne by (simp add: paraxial_loop_append ms_eq)
  then have "paraxial_matrix ri pm h s l 1 (Some (int ?N))
               = Inr (fold ?f (paraxial_loop pm l (fst (last ms)) rear) (fold ?f ms eye2))"
    by (simp add: paraxial_matrix_def paraxial_matrices_def idx0 stop_N sl_all n0_def)
  then have C: "paraxial_matrix ri pm h s l 1 (Some (int ?N))
               = Inr (dot (fold ?f (paraxial_loop pm l (fst (last ms)) rear) eye2) (fold ?f ms eye2))"
    using fold_dot[of "paraxial_loop pm l (fst (last ms)) rear" "fold ?f ms eye2"] by simp
  from A B C show ?thesis by blast
qed

lemmas lens_simps = paraxial_matrix_def paraxial_matrices_def py_index_def py_slice_def
  stop_or_len_def ex_paraxial_matrix_def ex_refractive_index_def lens_heap_def blank_def
  train_def glass_def air_def eye2_def Let_def

text \<open>
  Claim C1 as stated fails: on a thick lens between an object and an image, with split
  index 2 of 4, the product in the order \<open>[1, k)\<close> times \<open>[k, n)\<close> is not the matrix of the
  whole chain. All entries are dyadic fractions, so the floating-point computation is
  exact on this input.
\<close>

theorem paraxial_chain_order_counterexample:
  "paraxial_matrix ex_refractive_index ex_paraxial_matrix lens_heap (train [0, 1, 2, 3]) 0 1 (Some 2)
     = Inr (Mat2 1 1 (- 1) 0)
   \<and> paraxial_matrix ex_refractive_index ex_paraxial_matrix lens_heap (train [0, 1, 2, 3]) 0 2 (Some 4)
     = Inr (Mat2 1 (3 / 2) 0 1)
   \<and> paraxial_matrix ex_refractive_index ex_paraxial_matrix lens_heap (train [0, 1, 2, 3]) 0 1 (Some 4)
     = Inr (Mat2 (- (1 / 2)) 1 (- 1) 0)
   \<and> dot (Mat2 1 1 (- 1) 0) (Mat2 1 (3 / 2) 0 1) \<noteq> Mat2 (- (1 / 2)) 1 (- 1) 0"
  by (simp add: lens_simps)

theorem paraxial_chain_split_witness:
  "paraxial_matrices ex_refractive_index ex_paraxial_matrix lens_heap (train [0, 1, 2, 3]) 0 1 (Some 2)
     = Inr [(2, Mat2 1 1 (- 1) 0)]
   \<and> ex_refractive_index (lens_heap 1) 0 = 2
   \<and> paraxial_matrix ex_refractive_index ex_paraxial_matrix lens_heap (train [0, 1, 2, 3]) 0 1 (Some 4)
     = Inr (dot (Mat2 1 (3 / 2) 0 1) (Mat2 1 1 (- 1) 0))"
  using paraxial_chain_split [of 2 "train [0, 1, 2, 3]" ex_refractive_index ex_paraxial_matrix
      lens_heap 0 "[(2, Mat2 1 1 (- 1) 0)]"]
  by (simp add: lens_simps)

text \<open>
  Claim C10. \<^verbatim>\<open>stop = 0\<close> is falsy, so the upper bound is \<^verbatim>\<open>len(self)\<close> as for an omitted
  \<^verbatim>\<open>stop\<close>: both calls give the same result, and for a start index within the train the
  chain runs over every element from \<open>start\<close> to the end.
\<close>

theorem stop_zero_runs_to_end:
  "paraxial_matrices ri pm h s l start (Some 0) = paraxial_matrices ri pm h s l start None
   \<and> paraxial_matrix ri pm h s l start (Some 0) = paraxial_matrix ri pm h s l start None
   \<and> (1 \<le> start \<and> start \<le> int (length (elems s)) \<longrightarrow>
        paraxial_matrices ri pm h s l start (Some 0)
          = Inr (paraxial_loop pm l (ri (h (elems s ! nat (start - 1))) l)
                   (map h (drop (nat start) (elems s)))))"
proof (intro conjI impI)
  show 1: "paraxial_matrices ri pm h s l start (Some 0) = paraxial_matrices ri pm h s l start None"
  proof -
    have eq: "stop_or_len (Some 0) (elems s) = stop_or_len None (elems s)"
      by (simp add: stop_or_len_def)
    show ?thesis unfolding paraxial_matrices_def eq by (rule refl)
  qed
  show "paraxial_matrix ri pm h s l start (Some 0) = paraxial_matrix ri pm h s l start None"
    by (simp add: paraxial_matrix_def 1)
  assume st: "1 \<le> start \<and> start \<le> int (length (elems s))"
  then obtain i where i: "start = int i" "1 \<le> i" "i \<le> length (elems s)"
    by (metis nat_le_iff nat_0_le nat_one_as_int of_nat_le_iff order_trans zero_le_one)
  have "py_index (elems s) (start - 1) = Inr (elems s ! (i - 1))"
    using i py_index_nat[of "i - 1" "elems s"] by (simp add: of_nat_diff)
  moreover have "py_slice (elems s) start (int (length (elems s))) = drop i (elems s)"
    using py_slice_nat[of "elems s" i "length (elems s)"] i by simp
  moreover have "nat (start - 1) = i - 1" "nat start = i" using i by auto
  ultimately show "paraxial_matrices ri pm h s l start (Some 0)
          = Inr (paraxial_loop pm l (ri (h (elems s ! nat (start - 1))) l)
                   (map h (drop (nat start) (elems s))))"
    by (simp add: paraxial_matrices_def stop_or_len_def)
qed

theorem stop_zero_runs_to_end_witness:
  "paraxial_matrices ex_refractive_index ex_paraxial_matrix lens_heap (train [0, 1, 2, 3]) 0 2 (Some 0)
     = Inr [(1, Mat2 1 (1 / 2) 0 1), (1, Mat2 1 1 0 1)]
   \<and> paraxial_matrices ex_refractive_index ex_paraxial_matrix lens_heap (train [0, 1, 2, 3]) 0 2 None
     = Inr [(1, Mat2 1 (1 / 2) 0 1), (1, Mat2 1 1 0 1)]
   \<and> paraxial_matrix ex_refractive_index ex_paraxial_matrix lens_heap (train [0, 1, 2, 3]) 0 2 (Some 0)
     = Inr (Mat2 1 (3 / 2) 0 1)"
  using stop_zero_runs_to_end [of ex_refractive_index ex_paraxial_matrix lens_heap
      "train [0, 1, 2, 3]" 0 2]
  by (simp add: lens_simps)

subsection \<open>Surface outlines\<close>

lemma markers_loop:
  assumes "\<forall>e \<in> set es. material e = None \<or> material e = Some None"
    and "- 3 \<le> axis" and "axis < 3"
  shows "\<exists>cs. surfaces_cut_loop sc tf axis points z0 pending es = (cs, None)
           \<and> length cs = length es \<and> (\<forall>c \<in> set cs. \<exists>x z. c = Open x z)"
  using assms
proof (induction es arbitrary: z0)
  case Nil
  show ?case by simp
next
  case (Cons e es)
  from Cons.prems have e: "material e = None \<or> material e = Some None" by simp
  from Cons.IH[of "z0 + distance e"] Cons.prems obtain cs where
    cs: "surfaces_cut_loop sc tf axis points (z0 + distance e) pending es = (cs, None)"
      "length cs = length es" "\<forall>c \<in> set cs. \<exists>x z. c = Open x z"
    by auto
  from e Cons.prems(2,3) cs show ?case
    by (auto simp: Let_def)
qed

text \<open>
  Claim C9. On a train of an Object, an Aperture and an Image, none of which has a
  material (the attribute is missing or \<^verbatim>\<open>None\<close>), \<^verbatim>\<open>surfaces_cut\<close> with a valid axis yields
  exactly three open curves, no closed polygon, and raises nothing.
\<close>

theorem markers_yield_open_curves:
  assumes train: "map (\<lambda>a. cls (h a)) (elems s) = [Object, Aperture, Image']"
    and bare: "\<forall>a \<in> set (elems s). material (h a) = None \<or> material (h a) = Some None"
    and axis: "- 3 \<le> axis" "axis < 3"
  shows "\<exists>x1 z1 x2 z2 x3 z3. surfaces_cut sc tf h s axis points
           = ([Open x1 z1, Open x2 z2, Open x3 z3], None)"
proof -
  have len: "length (map h (elems s)) = 3"
    using arg_cong[OF train, of length] by simp
  have "\<forall>e \<in> set (map h (elems s)). material e = None \<or> material e = Some None"
    using bare by simp
  from markers_loop[OF this axis, of sc tf points 0 None] obtain cs where
    cs: "surfaces_cut sc tf h s axis points = (cs, None)" "length cs = 3"
      "\<forall>c \<in> set cs. \<exists>x z. c = Open x z"
    unfolding surfaces_cut_def using len by auto
  from cs(2) obtain c1 c2 c3 where c: "cs = [c1, c2, c3]"
    by (auto simp: length_Suc_conv numeral_3_eq_3)
  with cs(3) obtain x1 z1 x2 z2 x3 z3 where
    "c1 = Open x1 z1" "c2 = Open x2 z2" "c3 = Open x3 z3" by auto
  with c cs(1) show ?thesis by blast
qed

lemmas cut_simps = surfaces_cut_def ex_surface_cut_def ex_transform_from_def column_def
  marker_heap_def blank_def train_def Let_def

theorem markers_yield_open_curves_witness:
  "surfaces_cut ex_surface_cut ex_transform_from marker_heap (train [0, 1, 2]) 1 31
     = ([Open [- 1, 1] [0, 0], Open [- 1, 1] [0, 0], Open [- 1, 1] [0, 0]], None)"
  using markers_yield_open_curves [of marker_heap "train [0, 1, 2]" 1 ex_surface_cut
      ex_transform_from 31]
  by (simp add: cut_simps)

subsection \<open>Rescale\<close>

lemma for_each_at: "for_each f es h a = (f ^^ count_list es a) (h a)"
  by (induction es arbitrary: h) (simp_all add: funpow_swap1)






subsection \<open>Resize convex\<close>

lemma resize_step_radius: "radius (h a) \<le> radius (fst (resize_step el pending c0 h) a)"
  by (simp add: resize_step_def Let_def split: option.splits sum.splits)

lemma resize_loop_radius: "radius (h a) \<le> radius (fst (resize_loop pending c0 els h) a)"
proof (induction els arbitrary: pending c0 h)
  case Nil show ?case by simp
next
  case (Cons el els)
  obtain h' r where st: "resize_step el pending c0 h = (h', r)" by (cases "resize_step el pending c0 h")
  have le: "radius (h a) \<le> radius (h' a)" using resize_step_radius[of h a el pending c0] st by simp
  show ?case
  proof (cases r)
    case (Inl err)
    with st le show ?thesis by simp
  next
    case (Inr pc)
    obtain p' c' where "pc = (p', c')" by (cases pc)
    with Inr st have "resize_loop pending c0 (el # els) h = resize_loop p' c' els h'" by simp
    with le Cons.IH[of h' p' c'] show ?thesis by simp
  qed
qed

text \<open>
  Claim C6. After \<^verbatim>\<open>fix_sizes()\<close>, which is \<^verbatim>\<open>resize_convex()\<close>, the radius of every object is
  at least what it was before the call, whether the call returns or raises.
\<close>

theorem radius_never_decreases:
  "radius (h a) \<le> radius (fst (fix_sizes h s) a)
   \<and> radius (h a) \<le> radius (fst (resize_convex h s) a)"
  by (simp add: fix_sizes_def resize_convex_def resize_loop_radius)


lemmas cemented_simps = fix_sizes_def resize_convex_def resize_step_def material_solid_def
  positive_def py_slice_def cemented_heap_def blank_def glass_def air_def train_def Let_def

theorem radius_never_decreases_witness:
  "radius (cemented_heap 1) = 1
   \<and> radius (fst (fix_sizes cemented_heap (train [0, 1, 2, 3, 4])) 1) = 2
   \<and> radius (cemented_heap 1) \<le> radius (fst (fix_sizes cemented_heap (train [0, 1, 2, 3, 4])) 1)"
  using radius_never_decreases [of cemented_heap 1 "train [0, 1, 2, 3, 4]"]
  by (simp add: cemented_simps)

text \<open>
  Claim C3 fails on the cemented train: the first call grows surface 1 to the radius 2
  that surface 2 has at that moment, and then grows surface 2 to 3; both calls return.
  After the first call the convex surface 1 is smaller than the surface 2 that closes
  it, which the docstring of \<^verbatim>\<open>resize_convex\<close> promises not to leave behind, and the
  second call grows surface 1 to 3.
\<close>

theorem fix_sizes_second_call_changes_radius:
  "snd (fix_sizes cemented_heap (train [0, 1, 2, 3, 4])) = None
   \<and> map (\<lambda>a. radius (fst (fix_sizes cemented_heap (train [0, 1, 2, 3, 4])) a)) [1, 2, 3]
       = [2, 3, 3]
   \<and> snd (fix_sizes (fst (fix_sizes cemented_heap (train [0, 1, 2, 3, 4])))
             (train [0, 1, 2, 3, 4])) = None
   \<and> map (\<lambda>a. radius (fst (fix_sizes (fst (fix_sizes cemented_heap (train [0, 1, 2, 3, 4])))
                              (train [0, 1, 2, 3, 4])) a)) [1, 2, 3]
       = [3, 3, 3]"
  by (simp add: cemented_simps)

subsection \<open>Reverse\<close>

lemma for_each_other: "a \<notin> set xs \<Longrightarrow> for_each f xs h a = h a"
  by (induction xs arbitrary: h) auto

lemma for_each_distinct: "distinct xs \<Longrightarrow> a \<in> set xs \<Longrightarrow> for_each f xs h a = f (h a)"
  by (induction xs arbitrary: h) (auto simp: for_each_other)

lemma shift_distances_other: "a \<notin> set xs \<Longrightarrow> shift_distances d xs h a = h a"
  by (induction xs arbitrary: d h) auto

lemma shift_distances_frame:
  "(shift_distances d xs h a)\<lparr>distance := c\<rparr> = (h a)\<lparr>distance := c\<rparr>"
  by (induction xs arbitrary: d h) auto

lemma shift_distances_map:
  "distinct xs \<Longrightarrow>
     map (\<lambda>a. distance (shift_distances d xs h a)) xs
       = shifted_distances d (map (\<lambda>a. distance (h a)) xs)"
proof (induction xs arbitrary: d h)
  case Nil show ?case by simp
next
  case (Cons x xs)
  let ?h = "h(x := (h x)\<lparr>distance := d\<rparr>)"
  have x: "x \<notin> set xs" and dist: "distinct xs" using Cons.prems by simp_all
  have same: "map (\<lambda>a. distance (?h a)) xs = map (\<lambda>a. distance (h a)) xs"
    using x by (auto intro!: map_cong)
  have hd: "distance (shift_distances (distance (h x)) xs ?h x) = d"
    using x by (simp add: shift_distances_other)
  have tl: "map (\<lambda>a. distance (shift_distances (distance (h x)) xs ?h a)) xs
              = shifted_distances (distance (h x)) (map (\<lambda>a. distance (h a)) xs)"
    using Cons.IH[OF dist, of "distance (h x)" ?h] unfolding same .
  show ?case using hd tl by (simp del: fun_upd_apply)
qed

lemma shift_materials_other: "a \<notin> set xs \<Longrightarrow> shift_materials m xs h a = h a"
  by (induction xs arbitrary: m h) (auto split: option.splits)

lemma shift_materials_frame:
  "(shift_materials m xs h a)\<lparr>material := c\<rparr> = (h a)\<lparr>material := c\<rparr>"
  by (induction xs arbitrary: m h) (auto split: option.splits)

lemma shift_materials_map:
  "distinct xs \<Longrightarrow>
     map (\<lambda>a. material (shift_materials m xs h a)) xs
       = shifted_materials m (map (\<lambda>a. material (h a)) xs)"
proof (induction xs arbitrary: m h)
  case Nil show ?case by simp
next
  case (Cons x xs)
  have x: "x \<notin> set xs" and dist: "distinct xs" using Cons.prems by simp_all
  show ?case
  proof (cases "material (h x)")
    case None
    have "material (shift_materials m xs h x) = None"
      using x None by (simp add: shift_materials_other)
    then show ?thesis using Cons.IH[OF dist, of m h] None by simp
  next
    case (Some old)
    let ?h = "h(x := (h x)\<lparr>material := Some m\<rparr>)"
    have same: "map (\<lambda>a. material (?h a)) xs = map (\<lambda>a. material (h a)) xs"
      using x by (auto intro!: map_cong)
    have hd: "material (shift_materials old xs ?h x) = Some m"
      using x by (simp add: shift_materials_other)
    have tl: "map (\<lambda>a. material (shift_materials old xs ?h a)) xs
                = shifted_materials old (map (\<lambda>a. material (h a)) xs)"
      using Cons.IH[OF dist, of old ?h] unfolding same .
    show ?thesis using hd tl Some by (simp del: fun_upd_apply)
  qed
qed

lemma shifted_distances_append:
  "shifted_distances d (xs @ ys)
     = shifted_distances d xs @ shifted_distances (if xs = [] then d else last xs) ys"
  by (induction xs arbitrary: d) auto

lemma shifted_distances_rev:
  "xs \<noteq> [] \<Longrightarrow> shifted_distances d' (rev (shifted_distances d xs)) = d' # rev (butlast xs)"
proof (induction xs arbitrary: d)
  case Nil then show ?case by simp
next
  case (Cons x xs)
  show ?case
  proof (cases "xs = []")
    case True then show ?thesis by simp
  next
    case False
    have ne: "rev (shifted_distances x xs) \<noteq> []" using False by (cases xs) auto
    have l: "last (rev (shifted_distances x xs)) = x" using False by (cases xs) (auto simp: last_rev)
    show ?thesis using Cons.IH[OF False, of x] False ne l
      by (simp add: shifted_distances_append)
  qed
qed

lemma shifted_distances_twice:
  assumes "ds = [] \<or> hd ds = 0"
  shows "shifted_distances 0 (rev (shifted_distances 0 (rev ds))) = ds"
proof (cases ds)
  case Nil then show ?thesis by simp
next
  case (Cons x xs)
  then have "rev ds \<noteq> []" by simp
  from shifted_distances_rev[OF this, of 0 0]
  have "shifted_distances 0 (rev (shifted_distances 0 (rev ds))) = 0 # rev (butlast (rev ds))" .
  then show ?thesis using Cons assms by (simp add: butlast_rev)
qed

lemma carried_material_append:
  "carried_material m (xs @ ys) = carried_material (carried_material m xs) ys"
  by (induction m xs rule: carried_material.induct) auto

lemma shifted_materials_append:
  "shifted_materials m (xs @ ys)
     = shifted_materials m xs @ shifted_materials (carried_material m xs) ys"
  by (induction m xs rule: shifted_materials.induct) auto

lemma carried_material_rev:
  "carried_material (carried_material m xs) (rev (shifted_materials m xs)) = m"
  by (induction m xs rule: shifted_materials.induct) (auto simp: carried_material_append)

lemma shifted_materials_rev:
  "shifted_materials (carried_material m xs) (rev (shifted_materials m xs)) = rev xs"
  by (induction m xs rule: shifted_materials.induct)
    (auto simp: shifted_materials_append carried_material_rev)


lemma carried_material_last:
  "carried_material m (map (\<lambda>a. material (h a)) xs)
     = (if filter (\<lambda>a. material (h a) \<noteq> None) xs = [] then m
        else the (material (h (last (filter (\<lambda>a. material (h a) \<noteq> None) xs)))))"
proof (induction xs arbitrary: m)
  case Nil show ?case by simp
next
  case (Cons x xs)
  show ?case
  proof (cases "material (h x)")
    case None
    then show ?thesis using Cons.IH[of m] by simp
  next
    case (Some old)
    then show ?thesis using Cons.IH[of old] by simp
  qed
qed

lemma passes_shape:
  fixes g :: "'a element_scheme heap"
  shows "shift_materials m ys (shift_distances d xs g) b
     = (g b)\<lparr>distance := distance (shift_materials m ys (shift_distances d xs g) b),
             material := material (shift_materials m ys (shift_distances d xs g) b)\<rparr>"
proof -
  let ?g2 = "shift_distances d xs g"
  let ?g3 = "shift_materials m ys ?g2"
  have m: "(?g3 b)\<lparr>material := c\<rparr> = (?g2 b)\<lparr>material := c\<rparr>" for c
    by (rule shift_materials_frame)
  have d: "(?g2 b)\<lparr>distance := c\<rparr> = (g b)\<lparr>distance := c\<rparr>" for c
    by (rule shift_distances_frame)
  have dd: "distance (?g3 b) = distance (?g2 b)"
    using arg_cong[OF m[of None], of distance] by simp
  have "?g3 b = (?g3 b)\<lparr>material := material (?g3 b)\<rparr>" by simp
  also have "\<dots> = (?g2 b)\<lparr>material := material (?g3 b)\<rparr>" by (rule m)
  also have "?g2 b = (?g2 b)\<lparr>distance := distance (?g2 b)\<rparr>" by simp
  also have "\<dots> = (g b)\<lparr>distance := distance (?g3 b)\<rparr>" unfolding dd by (rule d)
  finally show ?thesis .
qed

lemma shift_materials_distance:
  "distance (shift_materials m xs h a) = distance (h a)"
  using arg_cong[OF shift_materials_frame[where c = None and m = m and xs = xs and h = h and a = a], of distance] by simp

lemma shift_distances_material:
  "material (shift_distances d xs h a) = material (h a)"
  using arg_cong[OF shift_distances_frame[where c = 0 and d = d and xs = xs and h = h and a = a], of material] by simp

lemma for_each_preserves:
  assumes "\<And>e. p (f e) = p e"
  shows "p (for_each f xs h a) = p (h a)"
proof -
  have "p ((f ^^ n) e) = p e" for n e by (induction n) (simp_all add: assms)
  then show ?thesis by (simp add: for_each_at)
qed


lemma reverse_unfold:
  "reverse el_reverse (h, s)
     = (shift_materials None (elems s)
          (shift_distances 0 (rev (elems s)) (for_each el_reverse (rev (elems s)) h)),
        s\<lparr>elems := rev (elems s)\<rparr>)"
  by (simp add: reverse_def Let_def)

text \<open>
  Claim C2, as amended. Two calls of \<^verbatim>\<open>reverse()\<close> restore the train and every object in
  it (order, distances, materials, curvatures and all other attributes) when no object
  stands in the train twice, the first element has distance 0, the last element that
  has a \<^verbatim>\<open>material\<close> attribute holds \<^verbatim>\<open>None\<close> in it, and the method \<^verbatim>\<open>reverse()\<close> of the
  elements is involutive and neither reads nor writes \<^verbatim>\<open>distance\<close> and \<^verbatim>\<open>material\<close>.
\<close>

theorem reverse_twice:
  fixes h :: "'a element_scheme heap"
  assumes inv: "\<forall>e. el_reverse (el_reverse e) = e"
    and loc_d: "\<forall>e d. el_reverse (e\<lparr>distance := d\<rparr>) = (el_reverse e)\<lparr>distance := d\<rparr>"
    and loc_m: "\<forall>e m. el_reverse (e\<lparr>material := m\<rparr>) = (el_reverse e)\<lparr>material := m\<rparr>"
    and dist: "distinct (elems s)"
    and head: "elems s \<noteq> [] \<longrightarrow> distance (h (hd (elems s))) = 0"
    and tail: "filter (\<lambda>a. material (h a) \<noteq> None) (elems s) \<noteq> [] \<longrightarrow>
                 material (h (last (filter (\<lambda>a. material (h a) \<noteq> None) (elems s)))) = Some None"
  shows "reverse el_reverse (reverse el_reverse (h, s)) = (h, s)"
proof -
  let ?es = "elems s"
  define h1 where "h1 = for_each el_reverse (rev ?es) h"
  define h2 where "h2 = shift_distances 0 (rev ?es) h1"
  define h3 where "h3 = shift_materials None ?es h2"
  define k1 where "k1 = for_each el_reverse ?es h3"
  define k2 where "k2 = shift_distances 0 ?es k1"
  define k3 where "k3 = shift_materials None (rev ?es) k2"
  have first: "reverse el_reverse (h, s) = (h3, s\<lparr>elems := rev ?es\<rparr>)"
    by (simp add: reverse_unfold h1_def h2_def h3_def)
  have second: "reverse el_reverse (h3, s\<lparr>elems := rev ?es\<rparr>) = (k3, s)"
    by (simp add: reverse_unfold k1_def k2_def k3_def)
  have rd: "distance (el_reverse e) = distance e" for e
  proof -
    have "el_reverse (e\<lparr>distance := distance e\<rparr>) = (el_reverse e)\<lparr>distance := distance e\<rparr>"
      using loc_d by blast
    from arg_cong[OF this, of distance] show ?thesis by simp
  qed
  have rm: "material (el_reverse e) = material e" for e
  proof -
    have "el_reverse (e\<lparr>material := material e\<rparr>) = (el_reverse e)\<lparr>material := material e\<rparr>"
      using loc_m by blast
    from arg_cong[OF this, of material] show ?thesis by simp
  qed
  \<comment> \<open>the distances, read along the original order\<close>
  let ?D = "map (\<lambda>a. distance (h a)) ?es"
  have d_h1: "distance (h1 b) = distance (h b)" for b
    unfolding h1_def by (rule for_each_preserves) (rule rd)
  have d_h3: "distance (h3 b) = distance (h2 b)" for b
    unfolding h3_def by (rule shift_materials_distance)
  have d_k1: "distance (k1 b) = distance (h3 b)" for b
    unfolding k1_def by (rule for_each_preserves) (rule rd)
  have d_k3: "distance (k3 b) = distance (k2 b)" for b
    unfolding k3_def by (rule shift_materials_distance)
  have "map (\<lambda>a. distance (h2 a)) (rev ?es) = shifted_distances 0 (map (\<lambda>a. distance (h1 a)) (rev ?es))"
    unfolding h2_def using dist by (intro shift_distances_map) simp
  then have D2: "map (\<lambda>a. distance (h2 a)) (rev ?es) = shifted_distances 0 (rev ?D)"
    by (simp add: d_h1 rev_map)
  have "map (\<lambda>a. distance (k2 a)) ?es = shifted_distances 0 (map (\<lambda>a. distance (k1 a)) ?es)"
    unfolding k2_def using dist by (intro shift_distances_map)
  also have "map (\<lambda>a. distance (k1 a)) ?es = rev (map (\<lambda>a. distance (h2 a)) (rev ?es))"
    by (simp add: d_k1 d_h3 rev_map)
  finally have "map (\<lambda>a. distance (k3 a)) ?es
                  = shifted_distances 0 (rev (shifted_distances 0 (rev ?D)))"
    by (simp add: d_k3 D2)
  moreover have "?D = [] \<or> hd ?D = 0" using head by (cases ?es) auto
  ultimately have D: "map (\<lambda>a. distance (k3 a)) ?es = ?D"
    by (simp only: shifted_distances_twice)
  \<comment> \<open>the materials, read along the original order\<close>
  let ?M = "map (\<lambda>a. material (h a)) ?es"
  have m_h1: "material (h1 b) = material (h b)" for b
    unfolding h1_def by (rule for_each_preserves) (rule rm)
  have m_h2: "material (h2 b) = material (h1 b)" for b
    unfolding h2_def by (rule shift_distances_material)
  have m_k1: "material (k1 b) = material (h3 b)" for b
    unfolding k1_def by (rule for_each_preserves) (rule rm)
  have m_k2: "material (k2 b) = material (k1 b)" for b
    unfolding k2_def by (rule shift_distances_material)
  have "map (\<lambda>a. material (h3 a)) ?es = shifted_materials None (map (\<lambda>a. material (h2 a)) ?es)"
    unfolding h3_def using dist by (intro shift_materials_map)
  then have M3: "map (\<lambda>a. material (h3 a)) ?es = shifted_materials None ?M"
    by (simp add: m_h2 m_h1)
  have carried: "carried_material None ?M = None"
    using tail by (simp add: carried_material_last)
  have "map (\<lambda>a. material (k3 a)) (rev ?es)
          = shifted_materials None (map (\<lambda>a. material (k2 a)) (rev ?es))"
    unfolding k3_def using dist by (intro shift_materials_map) simp
  also have "map (\<lambda>a. material (k2 a)) (rev ?es) = rev (map (\<lambda>a. material (h3 a)) ?es)"
    by (simp add: m_k2 m_k1 rev_map)
  finally have "map (\<lambda>a. material (k3 a)) (rev ?es)
                  = shifted_materials (carried_material None ?M) (rev (shifted_materials None ?M))"
    by (simp add: M3 carried)
  then have "map (\<lambda>a. material (k3 a)) (rev ?es) = rev ?M"
    by (simp only: shifted_materials_rev)
  then have M: "map (\<lambda>a. material (k3 a)) ?es = ?M"
    by (simp add: rev_map)
  \<comment> \<open>every object is back in its first state\<close>
  have "k3 a = h a" for a
  proof (cases "a \<in> set ?es")
    case False
    then show ?thesis
      by (simp add: k3_def k2_def k1_def h3_def h2_def h1_def shift_materials_other
          shift_distances_other for_each_other)
  next
    case True
    have da: "distance (k3 a) = distance (h a)" using D True by (simp add: map_eq_conv)
    have ma: "material (k3 a) = material (h a)" using M True by (simp add: map_eq_conv)
    have "h1 a = el_reverse (h a)"
      unfolding h1_def using dist True by (intro for_each_distinct) simp_all
    moreover have "h3 a = (h1 a)\<lparr>distance := distance (h3 a), material := material (h3 a)\<rparr>"
      unfolding h3_def h2_def by (rule passes_shape)
    ultimately have "h3 a = (el_reverse (h a))\<lparr>distance := distance (h3 a), material := material (h3 a)\<rparr>"
      by simp
    then have "el_reverse (h3 a) = (el_reverse (el_reverse (h a)))\<lparr>distance := distance (h3 a), material := material (h3 a)\<rparr>"
      using loc_d loc_m by metis
    then have "el_reverse (h3 a) = (h a)\<lparr>distance := distance (h3 a), material := material (h3 a)\<rparr>"
      using inv by simp
    moreover have "k1 a = el_reverse (h3 a)"
      unfolding k1_def using dist True by (intro for_each_distinct)
    moreover have "k3 a = (k1 a)\<lparr>distance := distance (k3 a), material := material (k3 a)\<rparr>"
      unfolding k3_def k2_def by (rule passes_shape)
    ultimately have "k3 a = (h a)\<lparr>distance := distance (k3 a), material := material (k3 a)\<rparr>"
      by simp
    then show ?thesis by (simp add: da ma)
  qed
  then have "k3 = h" by (rule ext)
  with first second show ?thesis by simp
qed


lemma ex_reverse_local:
  "\<forall>e. ex_reverse (ex_reverse e) = e"
  "\<forall>e d. ex_reverse (e\<lparr>distance := d\<rparr>) = (ex_reverse e)\<lparr>distance := d\<rparr>"
  "\<forall>e m. ex_reverse (e\<lparr>material := m\<rparr>) = (ex_reverse e)\<lparr>material := m\<rparr>"
  by (simp_all add: ex_reverse_def option.map_comp comp_def option.map_ident)

lemmas reverse_simps = reverse_def ex_reverse_def lens_heap_def open_lens_heap_def blank_def
  train_def glass_def air_def Let_def

text \<open>
  Claim C2 as stated fails, with an involutive \<^verbatim>\<open>reverse()\<close> of the elements: the
  distance shift starts from \<^verbatim>\<open>0.\<close> and drops the distance of the element that ends up
  last, the material shift starts from \<^verbatim>\<open>None\<close> and drops the material of the element it
  visits last. On the thick lens the image-side material (air) of surface 2 comes back
  as \<^verbatim>\<open>None\<close>, and on the train of the two surfaces alone the distance 1 of the head comes
  back as 0.
\<close>

theorem reverse_twice_counterexample:
  "material (lens_heap 2) = Some (Some air)
   \<and> material (fst (reverse ex_reverse (reverse ex_reverse (lens_heap, train [0, 1, 2, 3]))) 2)
       = Some None
   \<and> distance (lens_heap 1) = 1
   \<and> distance (fst (reverse ex_reverse (reverse ex_reverse (lens_heap, train [1, 2]))) 1) = 0"
  by (simp add: reverse_simps)

theorem reverse_twice_witness:
  "distinct (elems (train [0, 1, 2, 3]))
   \<and> distance (open_lens_heap 0) = 0
   \<and> material (open_lens_heap 2) = Some None
   \<and> elems (snd (reverse ex_reverse (open_lens_heap, train [0, 1, 2, 3]))) = [3, 2, 1, 0]
   \<and> curvature (fst (reverse ex_reverse (open_lens_heap, train [0, 1, 2, 3])) 1) = Some (- 1)
   \<and> reverse ex_reverse (reverse ex_reverse (open_lens_heap, train [0, 1, 2, 3]))
       = (open_lens_heap, train [0, 1, 2, 3])"
proof -
  have hyps: "distinct (elems (train [0, 1, 2, 3]))"
    "elems (train [0, 1, 2, 3]) \<noteq> [] \<longrightarrow> distance (open_lens_heap (hd (elems (train [0, 1, 2, 3])))) = 0"
    "filter (\<lambda>a. material (open_lens_heap a) \<noteq> None) (elems (train [0, 1, 2, 3])) \<noteq> [] \<longrightarrow>
       material (open_lens_heap (last (filter (\<lambda>a. material (open_lens_heap a) \<noteq> None)
          (elems (train [0, 1, 2, 3]))))) = Some None"
    by (simp_all add: train_def open_lens_heap_def lens_heap_def blank_def)
  have "reverse ex_reverse (reverse ex_reverse (open_lens_heap, train [0, 1, 2, 3]))
       = (open_lens_heap, train [0, 1, 2, 3])"
    by (rule reverse_twice [OF ex_reverse_local hyps])
  moreover have "elems (snd (reverse ex_reverse (open_lens_heap, train [0, 1, 2, 3]))) = [3, 2, 1, 0]"
    "curvature (fst (reverse ex_reverse (open_lens_heap, train [0, 1, 2, 3])) 1) = Some (- 1)"
    "distance (open_lens_heap 0) = 0" "material (open_lens_heap 2) = Some None"
    by (simp_all add: reverse_simps)
  ultimately show ?thesis using hyps(1) by simp
qed

end
